theory Spec2Isabelle
  imports Complex_Main "HOL-Library.Multiset"
begin

section \<open>The churn predictor of src/lib/ml/churn-predictor.ts\<close>

text \<open>
  The embedding follows the class \<open>ChurnPredictor\<close> function by function.
  JavaScript numbers are modelled as the real numbers they stand for: \<open>Math.exp\<close> is
  \<^const>\<open>exp\<close>, \<open>Math.tanh\<close> is \<^const>\<open>tanh\<close>, and the rounding error of IEEE doubles,
  \<open>NaN\<close> and the infinities are left out of the scoring. Dates are modelled by the
  millisecond time stamp that \<open>new Date(s).getTime()\<close> yields, so a date string that does
  not parse has no counterpart. The instant \<open>new Date()\<close> and the identifiers drawn by
  \<open>generateId\<close> are parameters of the model.

  The risk threshold is the exception: \<open>setRiskThreshold\<close> takes any \<open>number\<close> from its
  caller and guards it by two comparisons, whose outcome on \<open>NaN\<close> and on the infinities
  decides what is stored. The threshold is therefore a \<open>js_number\<close>, which has these values
  besides the reals.
\<close>

subsection \<open>Data model\<close>

text \<open>The fields of \<open>Employee\<close>, \<open>PerformanceRecord\<close> and \<open>EngagementRecord\<close> that the
  predictor reads. Optional fields are options.\<close>

record Employee =
  id_E :: string
  hire_date :: int
  salary :: "real option"

record PerformanceRecord =
  employee_id_P :: string
  review_date :: int
  rating :: real

record EngagementRecord =
  employee_id_G :: string
  survey_date :: int
  overall_score :: real
  work_life_balance :: "real option"

text \<open>The optional argument \<open>departmentData?: any\<close>, of which only \<open>turnover_rate\<close> is read.\<close>

record DepartmentData =
  turnover_rate :: "real option"

record FeatureVector =
  tenure_months :: real
  avg_performance_rating :: real
  performance_trend :: real
  avg_engagement_score :: real
  engagement_trend :: real
  salary_percentile :: real
  manager_changes :: real
  department_turnover_rate :: real
  promotion_gap_months :: real
  work_life_balance_score :: real

datatype RiskLevel = LOW | MEDIUM | HIGH | CRITICAL

record ChurnPrediction =
  id_C :: string
  employee_id :: string
  prediction_date :: int
  risk_score :: real
  risk_level :: RiskLevel
  risk_factors :: "string list"
  confidence :: real
  model_version :: string

text \<open>The keys of \<open>FeatureVector\<close> (\<open>keyof FeatureVector\<close>).\<close>

datatype FeatureName =
    Tenure_months
  | Avg_performance_rating
  | Performance_trend
  | Avg_engagement_score
  | Engagement_trend
  | Salary_percentile
  | Manager_changes
  | Department_turnover_rate
  | Promotion_gap_months
  | Work_life_balance_score

text \<open>A JavaScript \<open>number\<close> as \<open>setRiskThreshold\<close> can receive it: a finite value, read
  as a real, one of the two infinities, or \<open>NaN\<close>.\<close>

datatype js_number = Num real | PosInfinity | NegInfinity | NaN

text \<open>The mutable fields of a \<open>ChurnPredictor\<close> instance.\<close>

record ChurnPredictor =
  modelVersion :: string
  threshold :: js_number

definition new_ChurnPredictor :: ChurnPredictor where
  "new_ChurnPredictor = \<lparr>modelVersion = ''v1.2'', threshold = Num (1/2)\<rparr>"

datatype error = Error string

subsection \<open>JavaScript primitives\<close>

text \<open>\<open>a || d\<close> on an optional number: \<open>undefined\<close> and \<open>0\<close> are both falsy.\<close>

definition js_or :: "real option \<Rightarrow> real \<Rightarrow> real" where
  "js_or a d = (case a of None \<Rightarrow> d | Some v \<Rightarrow> if v = 0 then d else v)"

text \<open>\<open>a < b\<close> on numbers: every comparison with \<open>NaN\<close> is false, minus infinity is below
  and plus infinity above every other number. \<open>a > b\<close> is \<open>js_less b a\<close>.\<close>

fun js_less :: "js_number \<Rightarrow> js_number \<Rightarrow> bool" where
  "js_less NaN b = False"
| "js_less a NaN = False"
| "js_less (Num a) (Num b) = (a < b)"
| "js_less a NegInfinity = False"
| "js_less NegInfinity b = True"
| "js_less PosInfinity b = False"
| "js_less (Num a) PosInfinity = True"

text \<open>\<open>Math.round\<close> rounds to the nearest integer, a half towards plus infinity.\<close>

definition Math_round :: "real \<Rightarrow> real" where
  "Math_round x = of_int \<lfloor>x + 1/2\<rfloor>"

text \<open>\<open>Array.prototype.reduce\<close> with a callback that also reads the index.\<close>

definition reduce_i :: "('b \<Rightarrow> 'a \<Rightarrow> nat \<Rightarrow> 'b) \<Rightarrow> 'b \<Rightarrow> 'a list \<Rightarrow> 'b" where
  "reduce_i f init xs = foldl (\<lambda>acc (i, x). f acc x i) init (enumerate 0 xs)"

text \<open>
  \<open>Array.prototype.sort\<close> with a comparator. ECMAScript requires the sort to be stable;
  for a comparator that is a difference of keys the result is therefore determined, and
  it is computed here by a stable insertion sort: an element is placed before the first
  element it does not have to follow.
\<close>

fun insert_by :: "('a \<Rightarrow> 'a \<Rightarrow> real) \<Rightarrow> 'a \<Rightarrow> 'a list \<Rightarrow> 'a list" where
  "insert_by cmp x [] = [x]"
| "insert_by cmp x (y # ys) =
     (if cmp x y \<le> 0 then x # y # ys else y # insert_by cmp x ys)"

definition js_sort :: "('a \<Rightarrow> 'a \<Rightarrow> real) \<Rightarrow> 'a list \<Rightarrow> 'a list" where
  "js_sort cmp xs = foldr (insert_by cmp) xs []"

subsection \<open>Trend estimation\<close>

record TrendPoint =
  pt_date :: int
  pt_value :: real

definition calculateTrend :: "TrendPoint list \<Rightarrow> real" where
  "calculateTrend data =
     (if length data < 2 then 0
      else
        let sorted = js_sort (\<lambda>a b. of_int (pt_date a) - of_int (pt_date b)) data;
            n = real (length sorted);
            sumX = reduce_i (\<lambda>sum _ i. sum + real i) 0 sorted;
            sumY = reduce_i (\<lambda>sum item _. sum + pt_value item) 0 sorted;
            sumXY = reduce_i (\<lambda>sum item i. sum + real i * pt_value item) 0 sorted;
            sumXX = reduce_i (\<lambda>sum _ i. sum + real i * real i) 0 sorted;
            slope = (n * sumXY - sumX * sumY) / (n * sumXX - sumX * sumX)
        in tanh slope)"

subsection \<open>Feature extraction\<close>

definition extractFeatures ::
  "int \<Rightarrow> Employee \<Rightarrow> PerformanceRecord list \<Rightarrow> EngagementRecord list \<Rightarrow>
   DepartmentData option \<Rightarrow> FeatureVector" where
  "extractFeatures now employee performanceHistory engagementHistory departmentData =
     (let tenureMonths = (of_int \<lfloor>of_int (now - hire_date employee) / (1000 * 60 * 60 * 24 * 30 :: real)\<rfloor> :: real);
          avgPerformance =
            (if length performanceHistory > 0
             then foldl (\<lambda>sum p. sum + rating p) 0 performanceHistory / real (length performanceHistory)
             else 3);
          performanceTrend = calculateTrend
            (map (\<lambda>p. \<lparr>pt_date = review_date p, pt_value = rating p\<rparr>) performanceHistory);
          avgEngagement =
            (if length engagementHistory > 0
             then foldl (\<lambda>sum e. sum + overall_score e) 0 engagementHistory / real (length engagementHistory)
             else 7);
          engagementTrend = calculateTrend
            (map (\<lambda>e. \<lparr>pt_date = survey_date e, pt_value = overall_score e\<rparr>) engagementHistory);
          workLifeBalance =
            (if length engagementHistory > 0
             then foldl (\<lambda>sum e. sum + js_or (work_life_balance e) 7) 0 engagementHistory
                    / real (length engagementHistory)
             else 7);
          salaryPercentile =
            (case salary employee of
               None \<Rightarrow> 1/2
             | Some s \<Rightarrow> if s = 0 then 1/2 else min (s / 120000) 1);
          departmentTurnoverRate =
            js_or (case departmentData of None \<Rightarrow> None | Some d \<Rightarrow> turnover_rate d) (15/100)
      in \<lparr>tenure_months = tenureMonths,
          avg_performance_rating = avgPerformance,
          performance_trend = performanceTrend,
          avg_engagement_score = avgEngagement,
          engagement_trend = engagementTrend,
          salary_percentile = salaryPercentile,
          manager_changes = 0,
          department_turnover_rate = departmentTurnoverRate,
          promotion_gap_months = max 0 (tenureMonths - 24),
          work_life_balance_score = workLifeBalance\<rparr>)"

subsection \<open>Scoring\<close>

text \<open>The table \<open>modelWeights\<close>, in the order of its keys (the order of \<open>Object.entries\<close>).\<close>

definition modelWeights :: "(FeatureName \<times> real) list" where
  "modelWeights =
     [(Tenure_months, - (15/100)),
      (Avg_performance_rating, - (25/100)),
      (Performance_trend, - (20/100)),
      (Avg_engagement_score, - (30/100)),
      (Engagement_trend, - (18/100)),
      (Salary_percentile, - (12/100)),
      (Manager_changes, 22/100),
      (Department_turnover_rate, 28/100),
      (Promotion_gap_months, 16/100),
      (Work_life_balance_score, - (24/100))]"

text \<open>\<open>features[feature]\<close>.\<close>

fun feature_value :: "FeatureVector \<Rightarrow> FeatureName \<Rightarrow> real" where
  "feature_value f Tenure_months = tenure_months f"
| "feature_value f Avg_performance_rating = avg_performance_rating f"
| "feature_value f Performance_trend = performance_trend f"
| "feature_value f Avg_engagement_score = avg_engagement_score f"
| "feature_value f Engagement_trend = engagement_trend f"
| "feature_value f Salary_percentile = salary_percentile f"
| "feature_value f Manager_changes = manager_changes f"
| "feature_value f Department_turnover_rate = department_turnover_rate f"
| "feature_value f Promotion_gap_months = promotion_gap_months f"
| "feature_value f Work_life_balance_score = work_life_balance_score f"

definition normalizeFeature :: "FeatureName \<Rightarrow> real \<Rightarrow> real" where
  "normalizeFeature featureName v =
     (case featureName of
        Tenure_months \<Rightarrow> tanh (v / 60)
      | Avg_performance_rating \<Rightarrow> (v - 3) / 2
      | Avg_engagement_score \<Rightarrow> (v - 55/10) / (45/10)
      | Salary_percentile \<Rightarrow> (v - 1/2) * 2
      | Department_turnover_rate \<Rightarrow> tanh (v * 10)
      | Promotion_gap_months \<Rightarrow> tanh (v / 36)
      | _ \<Rightarrow> tanh v)"

definition calculateRiskScore :: "FeatureVector \<Rightarrow> real" where
  "calculateRiskScore features =
     (let score = foldl
            (\<lambda>score (feature, weight).
               let featureValue = feature_value features feature;
                   normalizedValue = normalizeFeature feature featureValue
               in score + weight * normalizedValue)
            (1/2) modelWeights
      in 1 / (1 + exp (- score)))"

definition categorizeRisk :: "real \<Rightarrow> RiskLevel" where
  "categorizeRisk riskScore =
     (if riskScore \<ge> 8/10 then CRITICAL
      else if riskScore \<ge> 6/10 then HIGH
      else if riskScore \<ge> 3/10 then MEDIUM
      else LOW)"

subsection \<open>Risk factors and confidence\<close>

text \<open>\<open>if (c) factors.push(s)\<close>. The rules of \<open>identifyRiskFactors\<close> read the feature
  vector only; its second parameter, the employee, is not used by the source.\<close>

definition push_if :: "bool \<Rightarrow> string \<Rightarrow> string list \<Rightarrow> string list" where
  "push_if c s factors = (if c then factors @ [s] else factors)"

definition identifyRiskFactors :: "FeatureVector \<Rightarrow> string list" where
  "identifyRiskFactors features =
     (let factors = [];
          factors = push_if (avg_performance_rating features < 3) ''Below average performance rating'' factors;
          factors = push_if (performance_trend features < - (3/10)) ''Declining performance trend'' factors;
          factors = push_if (avg_engagement_score features < 6) ''Low engagement score'' factors;
          factors = push_if (engagement_trend features < - (3/10)) ''Declining engagement trend'' factors;
          factors = push_if (work_life_balance_score features < 6) ''Poor work-life balance'' factors;
          factors = push_if (salary_percentile features < 3/10) ''Below market salary'' factors;
          factors = push_if (manager_changes features > 2) ''Frequent manager changes'' factors;
          factors = push_if (department_turnover_rate features > 25/100) ''High department turnover'' factors;
          factors = push_if (promotion_gap_months features > 36) ''Long time since last promotion'' factors;
          factors = push_if (tenure_months features < 6) ''Recent hire adjustment period'' factors;
          factors = push_if (length factors = 0) ''Multiple minor risk indicators'' factors
      in factors)"

text \<open>\<open>Object.values(features)\<close>.\<close>

definition feature_values :: "FeatureVector \<Rightarrow> real list" where
  "feature_values f =
     [tenure_months f, avg_performance_rating f, performance_trend f, avg_engagement_score f,
      engagement_trend f, salary_percentile f, manager_changes f, department_turnover_rate f,
      promotion_gap_months f, work_life_balance_score f]"

definition calculateConfidence :: "FeatureVector \<Rightarrow> real \<Rightarrow> real" where
  "calculateConfidence features riskScore =
     (let confidence = 7/10;
          dataCompleteness =
            real (length (filter (\<lambda>v. v \<noteq> 0) (feature_values features)))
              / real (length (feature_values features));
          confidence = confidence + dataCompleteness * (2/10);
          extremeness = \<bar>riskScore - 1/2\<bar> * 2;
          confidence = confidence + extremeness * (1/10)
      in min confidence (95/100))"

subsection \<open>Prediction\<close>

text \<open>\<open>predictChurn\<close> at the instant \<open>now\<close>, with \<open>gid\<close> the identifier that
  \<open>generateId\<close> draws. The field \<open>prediction_date\<close> holds the number of the UTC day of
  \<open>now\<close>, which the source prints as a calendar date. No step of the model throws, so the
  \<open>catch\<close> branch has no counterpart.\<close>

definition predictChurn ::
  "ChurnPredictor \<Rightarrow> int \<Rightarrow> string \<Rightarrow> Employee \<Rightarrow> PerformanceRecord list \<Rightarrow>
   EngagementRecord list \<Rightarrow> DepartmentData option \<Rightarrow> ChurnPrediction" where
  "predictChurn self now gid employee performanceHistory engagementHistory departmentData =
     (let features = extractFeatures now employee performanceHistory engagementHistory departmentData;
          riskScore = calculateRiskScore features;
          riskLevel = categorizeRisk riskScore;
          riskFactors = identifyRiskFactors features;
          confidence = calculateConfidence features riskScore
      in \<lparr>id_C = gid,
          employee_id = id_E employee,
          prediction_date = now div 86400000,
          risk_score = Math_round (riskScore * 1000) / 1000,
          risk_level = riskLevel,
          risk_factors = riskFactors,
          confidence = Math_round (confidence * 1000) / 1000,
          model_version = modelVersion self\<rparr>)"



subsection \<open>Threshold configuration\<close>

text \<open>\<open>setRiskThreshold\<close> either throws or assigns the field: the model returns the outcome
  together with the instance as the call leaves it.\<close>

definition setRiskThreshold :: "js_number \<Rightarrow> ChurnPredictor \<Rightarrow> (error + unit) \<times> ChurnPredictor" where
  "setRiskThreshold t self =
     (if js_less t (Num 0) \<or> js_less (Num 1) t
      then (Inl (Error ''Threshold must be between 0 and 1''), self)
      else (Inr (), self\<lparr>threshold := t\<rparr>))"

definition getRiskThreshold :: "ChurnPredictor \<Rightarrow> js_number" where
  "getRiskThreshold self = threshold self"

subsection \<open>Notions used to state the properties\<close>

text \<open>The list that \<open>calculateTrend\<close> regresses on: the points in ascending order of date.\<close>

definition sorted_by_date :: "TrendPoint list \<Rightarrow> TrendPoint list" where
  "sorted_by_date data = js_sort (\<lambda>a b. of_int (pt_date a) - of_int (pt_date b)) data"

text \<open>The slope that \<open>calculateTrend\<close> computes from the values of the sorted points,
  with the four \<open>reduce\<close> calls written as sums over the positions.\<close>

definition rank_slope :: "real list \<Rightarrow> real" where
  "rank_slope ys =
     (real (length ys) * (\<Sum>i<length ys. real i * ys ! i)
        - (\<Sum>i<length ys. real i) * (\<Sum>i<length ys. ys ! i))
     / (real (length ys) * (\<Sum>i<length ys. real i * real i)
        - (\<Sum>i<length ys. real i) * (\<Sum>i<length ys. real i))"

text \<open>
  Ordinary least squares against the integer rank: \<open>sse ys a b\<close> is the sum of the squared
  residuals of the line \<open>a + b * i\<close> at the points \<open>(i, ys ! i)\<close>, and \<open>b\<close> is a
  least-squares slope when, with some intercept, no line has a smaller sum.
\<close>

definition sse :: "real list \<Rightarrow> real \<Rightarrow> real \<Rightarrow> real" where
  "sse ys a b = (\<Sum>i<length ys. (ys ! i - (a + b * real i))\<^sup>2)"

definition is_ols_slope :: "real list \<Rightarrow> real \<Rightarrow> bool" where
  "is_ols_slope ys b \<longleftrightarrow> (\<exists>a. \<forall>a' b'. sse ys a b \<le> sse ys a' b')"

text \<open>A number lies in the closed interval from 0 to 1.\<close>

fun in_unit_interval :: "js_number \<Rightarrow> bool" where
  "in_unit_interval (Num r) = (0 \<le> r \<and> r \<le> 1)"
| "in_unit_interval t = False"

text \<open>None of the ten threshold rules of \<open>identifyRiskFactors\<close> fires.\<close>

definition no_rule_fires :: "FeatureVector \<Rightarrow> bool" where
  "no_rule_fires features =
     (\<not> avg_performance_rating features < 3 \<and>
      \<not> performance_trend features < - (3/10) \<and>
      \<not> avg_engagement_score features < 6 \<and>
      \<not> engagement_trend features < - (3/10) \<and>
      \<not> work_life_balance_score features < 6 \<and>
      \<not> salary_percentile features < 3/10 \<and>
      \<not> manager_changes features > 2 \<and>
      \<not> department_turnover_rate features > 25/100 \<and>
      \<not> promotion_gap_months features > 36 \<and>
      \<not> tenure_months features < 6)"

text \<open>The order \<open>LOW < MEDIUM < HIGH < CRITICAL\<close> of the risk levels.\<close>

fun level_rank :: "RiskLevel \<Rightarrow> nat" where
  "level_rank LOW = 0"
| "level_rank MEDIUM = 1"
| "level_rank HIGH = 2"
| "level_rank CRITICAL = 3"

text \<open>Concrete inputs: an employee hired twelve months before the prediction, an employee
  hired on the day before it, and two short series of dated values.\<close>

definition steady_employee :: Employee where
  "steady_employee = \<lparr>id_E = ''e1'', hire_date = 0, salary = Some 60000\<rparr>"

definition boundary_employee :: Employee where
  "boundary_employee = \<lparr>id_E = ''e2'', hire_date = 0, salary = Some 64500\<rparr>"

definition rising_points :: "TrendPoint list" where
  "rising_points = [\<lparr>pt_date = 2, pt_value = 5\<rparr>, \<lparr>pt_date = 1, pt_value = 3\<rparr>]"

definition falling_points :: "TrendPoint list" where
  "falling_points = [\<lparr>pt_date = 1, pt_value = 5\<rparr>, \<lparr>pt_date = 2, pt_value = 3\<rparr>]"

section \<open>Properties\<close>

subsection \<open>Rounding, the logistic function and the fields of a prediction\<close>

lemma logistic_bounds: "0 < 1 / (1 + exp (- (x::real))) \<and> 1 / (1 + exp (- x)) < 1"
proof -
  have e: "0 < exp (- x)" by simp
  then have p: "0 < 1 + exp (- x)" by (simp add: add_pos_pos)
  have "1 / (1 + exp (- x)) < 1" using e p by (simp add: divide_less_eq)
  with p show ?thesis by simp
qed

lemma calculateRiskScore_bounds: "0 < calculateRiskScore f \<and> calculateRiskScore f < 1"
  unfolding calculateRiskScore_def Let_def by (rule logistic_bounds)

lemma Math_round_near: "\<bar>Math_round x - x\<bar> \<le> 1/2"
  unfolding Math_round_def by linarith

lemma Math_round_ge: "of_int k \<le> x \<Longrightarrow> of_int k \<le> Math_round x"
  unfolding Math_round_def by (simp add: le_floor_iff)

lemma Math_round_le: "x \<le> of_int k \<Longrightarrow> Math_round x \<le> of_int k"
proof -
  assume "x \<le> of_int k"
  then have "x + 1/2 < of_int (k + 1)" by simp
  then have "\<lfloor>x + 1/2\<rfloor> < k + 1" by (simp only: floor_less_iff)
  then show ?thesis by (simp add: Math_round_def)
qed

text \<open>Rounding to three decimals keeps a value between two bounds that are themselves
  multiples of a thousandth, and moves it by at most half a thousandth.\<close>

lemma round3_bounds:
  assumes "of_int a / 1000 \<le> x" and "x \<le> of_int b / 1000"
  shows "of_int a / 1000 \<le> Math_round (x * 1000) / 1000 \<and> Math_round (x * 1000) / 1000 \<le> of_int b / 1000"
proof -
  from assms have "of_int a \<le> x * 1000" and "x * 1000 \<le> of_int b" by simp_all
  then have "of_int a \<le> Math_round (x * 1000)" and "Math_round (x * 1000) \<le> of_int b"
    by (simp_all add: Math_round_ge Math_round_le)
  then show ?thesis by simp
qed

lemma round3_near: "\<bar>Math_round (x * 1000) / 1000 - x\<bar> \<le> 1/2000"
  using Math_round_near [of "x * 1000"] by (simp add: field_simps abs_le_iff)

lemma calculateConfidence_bounds:
  "7/10 \<le> calculateConfidence f s \<and> calculateConfidence f s \<le> 95/100"
proof -
  have "0 \<le> real (length (filter (\<lambda>v. v \<noteq> 0) (feature_values f))) / real (length (feature_values f))"
    by simp
  then show ?thesis
    unfolding calculateConfidence_def Let_def by (simp add: min_def)
qed

lemma risk_score_predictChurn:
  "risk_score (predictChurn self now gid e ps gs d) =
     Math_round (calculateRiskScore (extractFeatures now e ps gs d) * 1000) / 1000"
  by (simp add: predictChurn_def Let_def)

lemma confidence_predictChurn:
  "confidence (predictChurn self now gid e ps gs d) =
     Math_round (calculateConfidence (extractFeatures now e ps gs d)
        (calculateRiskScore (extractFeatures now e ps gs d)) * 1000) / 1000"
  by (simp add: predictChurn_def Let_def)

lemma risk_level_predictChurn:
  "risk_level (predictChurn self now gid e ps gs d) =
     categorizeRisk (calculateRiskScore (extractFeatures now e ps gs d))"
  by (simp add: predictChurn_def Let_def)

lemma risk_factors_predictChurn:
  "risk_factors (predictChurn self now gid e ps gs d) =
     identifyRiskFactors (extractFeatures now e ps gs d)"
  by (simp add: predictChurn_def Let_def)


lemma risk_score_range:
  "0 \<le> risk_score (predictChurn self now gid e ps gs d) \<and>
   risk_score (predictChurn self now gid e ps gs d) \<le> 1"
  using round3_bounds [of 0 "calculateRiskScore (extractFeatures now e ps gs d)" 1000]
    calculateRiskScore_bounds [of "extractFeatures now e ps gs d"]
  by (simp add: risk_score_predictChurn)

lemma confidence_range:
  "7/10 \<le> confidence (predictChurn self now gid e ps gs d) \<and>
   confidence (predictChurn self now gid e ps gs d) \<le> 95/100"
  using round3_bounds [of 700 "calculateConfidence (extractFeatures now e ps gs d)
        (calculateRiskScore (extractFeatures now e ps gs d))" 950]
    calculateConfidence_bounds [of "extractFeatures now e ps gs d"
        "calculateRiskScore (extractFeatures now e ps gs d)"]
  by (simp add: confidence_predictChurn)

lemma calculateRiskScore_closed:
  "calculateRiskScore f =
     1 / (1 + exp (- (1/2
        + (- (15/100)) * tanh (tenure_months f / 60)
        + (- (25/100)) * ((avg_performance_rating f - 3) / 2)
        + (- (20/100)) * tanh (performance_trend f)
        + (- (30/100)) * ((avg_engagement_score f - 55/10) / (45/10))
        + (- (18/100)) * tanh (engagement_trend f)
        + (- (12/100)) * ((salary_percentile f - 1/2) * 2)
        + (22/100) * tanh (manager_changes f)
        + (28/100) * tanh (department_turnover_rate f * 10)
        + (16/100) * tanh (promotion_gap_months f / 36)
        + (- (24/100)) * tanh (work_life_balance_score f))))"
  by (simp add: calculateRiskScore_def modelWeights_def normalizeFeature_def)

subsection \<open>The risk score\<close>

text \<open>
  C1: for every feature vector, the score of \<open>calculateRiskScore\<close> is the logistic function
  \<open>1 / (1 + exp (- x))\<close> at \<open>x\<close> = 0.5 plus the sum over the ten features of the fixed
  weight times the normalized value (tenure \<open>-0.15 * tanh (v / 60)\<close>, average performance
  \<open>-0.25 * ((v - 3) / 2)\<close>, performance trend \<open>-0.20 * tanh v\<close>, average engagement
  \<open>-0.30 * ((v - 5.5) / 4.5)\<close>, engagement trend \<open>-0.18 * tanh v\<close>, salary percentile
  \<open>-0.12 * ((v - 0.5) * 2)\<close>, manager changes \<open>0.22 * tanh v\<close>, department turnover
  \<open>0.28 * tanh (v * 10)\<close>, promotion gap \<open>0.16 * tanh (v / 36)\<close>, work-life balance
  \<open>-0.24 * tanh v\<close>). The field \<open>risk_score\<close> of the prediction is this value rounded
  to three decimals: a whole number of thousandths at most half a thousandth away from it.
\<close>

theorem risk_score_formula:
  "calculateRiskScore f =
     1 / (1 + exp (- (1/2
        + (- (15/100)) * tanh (tenure_months f / 60)
        + (- (25/100)) * ((avg_performance_rating f - 3) / 2)
        + (- (20/100)) * tanh (performance_trend f)
        + (- (30/100)) * ((avg_engagement_score f - 55/10) / (45/10))
        + (- (18/100)) * tanh (engagement_trend f)
        + (- (12/100)) * ((salary_percentile f - 1/2) * 2)
        + (22/100) * tanh (manager_changes f)
        + (28/100) * tanh (department_turnover_rate f * 10)
        + (16/100) * tanh (promotion_gap_months f / 36)
        + (- (24/100)) * tanh (work_life_balance_score f))))
   \<and> risk_score (predictChurn self now gid e ps gs d) * 1000 \<in> \<int>
   \<and> \<bar>risk_score (predictChurn self now gid e ps gs d)
        - calculateRiskScore (extractFeatures now e ps gs d)\<bar> \<le> 1/2000"
proof (intro conjI)
  show "risk_score (predictChurn self now gid e ps gs d) * 1000 \<in> \<int>"
    by (simp add: risk_score_predictChurn Math_round_def)
  show "\<bar>risk_score (predictChurn self now gid e ps gs d)
        - calculateRiskScore (extractFeatures now e ps gs d)\<bar> \<le> 1/2000"
    by (simp only: risk_score_predictChurn round3_near)
qed (rule calculateRiskScore_closed)

text \<open>
  C3: the \<open>risk_score\<close> of every prediction lies in the closed interval from 0 to 1 and
  its \<open>confidence\<close> in the closed interval from 0 to 0.95.
\<close>

theorem prediction_ranges:
  "0 \<le> risk_score (predictChurn self now gid e ps gs d) \<and>
   risk_score (predictChurn self now gid e ps gs d) \<le> 1 \<and>
   0 \<le> confidence (predictChurn self now gid e ps gs d) \<and>
   confidence (predictChurn self now gid e ps gs d) \<le> 95/100"
  using risk_score_range [of self now gid e ps gs d] confidence_range [of self now gid e ps gs d]
  by simp


subsection \<open>Risk levels\<close>

lemma categorizeRisk_mono: "a \<le> b \<Longrightarrow> level_rank (categorizeRisk a) \<le> level_rank (categorizeRisk b)"
  by (simp add: categorizeRisk_def)

lemma categorizeRisk_bands:
  "(categorizeRisk a = CRITICAL \<longleftrightarrow> 8/10 \<le> a) \<and>
   (categorizeRisk a = HIGH \<longleftrightarrow> 6/10 \<le> a \<and> a < 8/10) \<and>
   (categorizeRisk a = MEDIUM \<longleftrightarrow> 3/10 \<le> a \<and> a < 6/10) \<and>
   (categorizeRisk a = LOW \<longleftrightarrow> a < 3/10)"
  by (simp add: categorizeRisk_def)

text \<open>The level of the unrounded score and the level of the score rounded to three decimals
  differ only when the rounded score is one of the three boundaries and the unrounded score
  is just below it.\<close>

lemma categorizeRisk_rounded:
  fixes s :: real
  defines "r \<equiv> Math_round (s * 1000) / 1000"
  shows "categorizeRisk s = categorizeRisk r \<or>
         (r = 8/10 \<and> categorizeRisk s = HIGH) \<or>
         (r = 6/10 \<and> categorizeRisk s = MEDIUM) \<or>
         (r = 3/10 \<and> categorizeRisk s = LOW)"
proof -
  define k where "k = \<lfloor>s * 1000 + 1/2\<rfloor>"
  have r: "r = of_int k / 1000" by (simp add: r_def Math_round_def k_def)
  have lo: "of_int k \<le> s * 1000 + 1/2" and hi: "s * 1000 + 1/2 < of_int k + 1"
    unfolding k_def by linarith+
  consider "k < 300" | "k = 300" | "300 < k" "k < 600" | "k = 600"
    | "600 < k" "k < 800" | "k = 800" | "800 < k"
    by linarith
  then show ?thesis
  proof cases
    case 1
    then have "of_int k + 1 \<le> (300::real)" by linarith
    with hi 1 show ?thesis by (simp add: r categorizeRisk_def)
  next
    case 2
    with lo hi show ?thesis by (simp add: r categorizeRisk_def)
  next
    case 3
    then have "(301::real) \<le> of_int k" and "of_int k + 1 \<le> (600::real)" by linarith+
    with lo hi 3 show ?thesis by (simp add: r categorizeRisk_def)
  next
    case 4
    with lo hi show ?thesis by (simp add: r categorizeRisk_def)
  next
    case 5
    then have "(601::real) \<le> of_int k" and "of_int k + 1 \<le> (800::real)" by linarith+
    with lo hi 5 show ?thesis by (simp add: r categorizeRisk_def)
  next
    case 6
    with lo hi show ?thesis by (simp add: r categorizeRisk_def)
  next
    case 7
    then have "(801::real) \<le> of_int k" by linarith
    with lo hi 7 show ?thesis by (simp add: r categorizeRisk_def)
  qed
qed

subsubsection \<open>Bounds on the exponential function\<close>

text \<open>The partial sums of the exponential series bound \<open>exp x\<close> from below for \<open>x \<ge> 0\<close>,
  and with the Lagrange remainder from above.\<close>

lemma exp_taylor_lower:
  fixes x :: real
  assumes "0 \<le> x"
  shows "(\<Sum>m<n. x ^ m / fact m) \<le> exp x"
proof -
  from Maclaurin_exp_le [of x n] obtain t where
    "exp x = (\<Sum>m<n. x ^ m / fact m) + exp t / fact n * x ^ n" by blast
  moreover have "0 \<le> exp t / fact n * x ^ n"
    using assms by simp
  ultimately show ?thesis by simp
qed

lemma exp_taylor_upper:
  fixes x :: real
  assumes "0 \<le> x" and q: "x ^ n / fact n < 1"
  shows "exp x \<le> (\<Sum>m<n. x ^ m / fact m) / (1 - x ^ n / fact n)"
proof -
  from Maclaurin_exp_le [of x n] obtain t where
    t: "\<bar>t\<bar> \<le> \<bar>x\<bar>" and e: "exp x = (\<Sum>m<n. x ^ m / fact m) + exp t / fact n * x ^ n" by blast
  from t assms have "t \<le> x" by simp
  then have "exp t \<le> exp x" by simp
  then have "exp t * (x ^ n / fact n) \<le> exp x * (x ^ n / fact n)"
    using assms by (intro mult_right_mono) simp_all
  with e have "exp x \<le> (\<Sum>m<n. x ^ m / fact m) + exp x * (x ^ n / fact n)"
    by simp
  then have "exp x * (1 - x ^ n / fact n) \<le> (\<Sum>m<n. x ^ m / fact m)"
    by (simp add: algebra_simps)
  with q show ?thesis by (simp add: pos_le_divide_eq)
qed

lemma ratio_shift:
  fixes E :: real
  assumes "0 < E"
  shows "(1 - 1 / E) / (1 + 1 / E) = 1 - 2 / (E + 1)"
proof -
  have "(1 - 1 / E) / (1 + 1 / E) = ((E - 1) / E) / ((E + 1) / E)"
    using assms by (simp add: field_simps)
  also have "\<dots> = (E - 1) / (E + 1)"
    using assms by simp
  also have "\<dots> = 1 - 2 / (E + 1)"
    using assms by (simp add: field_simps)
  finally show ?thesis .
qed

lemma tanh_exp_double: "tanh (x::real) = 1 - 2 / (exp (2 * x) + 1)"
proof -
  have "exp (- (2 * x)) = 1 / exp (2 * x)" by (simp add: exp_minus field_simps)
  then have "tanh x = (1 - 1 / exp (2 * x)) / (1 + 1 / exp (2 * x))"
    by (simp add: tanh_real_altdef)
  then show ?thesis by (simp only: ratio_shift [OF exp_gt_zero])
qed

lemma one_minus_recip_mono:
  fixes a b :: real
  assumes "0 < a" and "a \<le> b"
  shows "1 - 2 / a \<le> 1 - 2 / b"
  using frac_le [of 2 2 a b] assms by simp

lemma exp_3_bounds: "(20 :: real) \<le> exp 3 \<and> exp 3 \<le> (2011/100 :: real)"
proof
  have "(\<Sum>m<10. (3::real) ^ m / fact m) \<le> exp 3" by (rule exp_taylor_lower) simp
  moreover have "(20::real) \<le> (\<Sum>m<10. (3::real) ^ m / fact m)"
    by (simp add: eval_nat_numeral)
  ultimately show "(20 :: real) \<le> exp 3" by simp
  have "exp (3::real) \<le> (\<Sum>m<12. 3 ^ m / fact m) / (1 - 3 ^ 12 / fact 12)"
    by (rule exp_taylor_upper) (simp_all add: eval_nat_numeral)
  also have "\<dots> \<le> 2011/100"
    by (simp add: eval_nat_numeral)
  finally show "exp 3 \<le> (2011/100 :: real)" .
qed

lemma exp_14_lower: "(20000 :: real) \<le> exp 14"
proof -
  have "(\<Sum>m<8. (14::real) ^ m / fact m) \<le> exp 14" by (rule exp_taylor_lower) simp
  moreover have "(20000::real) \<le> (\<Sum>m<8. (14::real) ^ m / fact m)"
    by (simp add: eval_nat_numeral)
  ultimately show ?thesis by simp
qed

lemma tanh_3_2_bounds: "19/21 \<le> tanh (3/2 :: real) \<and> tanh (3/2 :: real) \<le> 9053/10000"
proof -
  have t: "tanh (3/2 :: real) = 1 - 2 / (exp 3 + 1)"
    using tanh_exp_double [of "3/2"] by simp
  from exp_3_bounds have lo: "21 \<le> exp (3::real) + 1" and hi: "exp (3::real) + 1 \<le> 2111/100"
    by simp_all
  have "1 - 2 / 21 \<le> 1 - 2 / (exp (3::real) + 1)"
    using lo by (intro one_minus_recip_mono) simp_all
  moreover have "1 - 2 / (exp (3::real) + 1) \<le> 1 - 2 / (2111/100)"
    using hi by (intro one_minus_recip_mono) (simp_all add: add_pos_pos)
  ultimately show ?thesis unfolding t by simp
qed

lemma tanh_7_bounds: "9999/10000 \<le> tanh (7 :: real) \<and> tanh (7 :: real) \<le> 1"
proof -
  have t: "tanh (7 :: real) = 1 - 2 / (exp 14 + 1)"
    using tanh_exp_double [of 7] by simp
  from exp_14_lower have "20001 \<le> exp (14::real) + 1" by simp
  then have "1 - 2 / 20001 \<le> 1 - 2 / (exp (14::real) + 1)"
    by (intro one_minus_recip_mono) simp_all
  then have "9999/10000 \<le> tanh (7 :: real)" unfolding t by simp
  moreover have "tanh (7::real) < 1" by (rule tanh_real_lt_1)
  ultimately show ?thesis by simp
qed

lemma exp_window:
  fixes x :: real
  assumes "4043/10000 \<le> x" and "x \<le> 4046/10000"
  shows "14969/10000 \<le> exp x \<and> exp x < 3/2"
proof
  have "(14969/10000 :: real) \<le> (\<Sum>m<5. (4043/10000 :: real) ^ m / fact m)"
    by (simp add: eval_nat_numeral)
  also have "\<dots> \<le> exp (4043/10000)"
    by (rule exp_taylor_lower) simp
  also have "\<dots> \<le> exp x" using assms by simp
  finally show "14969/10000 \<le> exp x" .
  have "exp x \<le> exp (4046/10000)" using assms by simp
  also have "\<dots> \<le> (\<Sum>m<5. (4046/10000) ^ m / fact m) / (1 - (4046/10000) ^ 5 / fact 5)"
    by (rule exp_taylor_upper) (simp_all add: eval_nat_numeral)
  also have "\<dots> < 3/2"
    by (simp add: eval_nat_numeral)
  finally show "exp x < 3/2" .
qed

lemma logistic_window:
  fixes x :: real
  assumes "4043/10000 \<le> x" and "x \<le> 4046/10000"
  shows "5995/10000 \<le> 1 / (1 + exp (- x)) \<and> 1 / (1 + exp (- x)) < 6/10"
proof -
  from exp_window [OF assms] have lo: "14969/10000 \<le> exp x" and hi: "exp x < 3/2" by simp_all
  have pos: "0 < exp x" by simp
  have eq: "1 / (1 + exp (- x)) = exp x / (exp x + 1)"
    using pos by (simp add: exp_minus field_simps)
  have p1: "0 < exp x + 1" by (simp add: add_pos_pos)
  have "5995/10000 * (exp x + 1) \<le> exp x" using lo by simp
  then have a: "5995/10000 \<le> exp x / (exp x + 1)"
    using p1 by (simp only: pos_le_divide_eq)
  have "exp x < 6/10 * (exp x + 1)" using hi by simp
  then have b: "exp x / (exp x + 1) < 6/10"
    using p1 by (simp only: pos_divide_less_eq)
  from a b show ?thesis unfolding eq by simp
qed

subsubsection \<open>An employee whose score rounds up to a boundary\<close>

text \<open>An employee hired the day before the prediction, with a salary of 64500, no records and
  no department data, has an unrounded score between 0.5995 and 0.6.\<close>

lemma boundary_features:
  "extractFeatures 86400000 boundary_employee [] [] None =
     \<lparr>tenure_months = 0, avg_performance_rating = 3, performance_trend = 0,
      avg_engagement_score = 7, engagement_trend = 0, salary_percentile = 43/80,
      manager_changes = 0, department_turnover_rate = 15/100, promotion_gap_months = 0,
      work_life_balance_score = 7\<rparr>"
  by (simp add: extractFeatures_def boundary_employee_def calculateTrend_def js_or_def Let_def)

lemma boundary_score:
  "5995/10000 \<le> calculateRiskScore (extractFeatures 86400000 boundary_employee [] [] None) \<and>
   calculateRiskScore (extractFeatures 86400000 boundary_employee [] [] None) < 6/10"
proof -
  define x :: real where "x = 391/1000 + 28/100 * tanh (3/2) - 24/100 * tanh 7"
  have s: "calculateRiskScore (extractFeatures 86400000 boundary_employee [] [] None)
      = 1 / (1 + exp (- x))"
    unfolding boundary_features calculateRiskScore_closed x_def
    by (simp add: algebra_simps)
  have "4043/10000 \<le> x" and "x \<le> 4046/10000"
    using tanh_3_2_bounds tanh_7_bounds unfolding x_def by simp_all
  then show ?thesis unfolding s by (rule logistic_window)
qed

text \<open>
  C2, as stated, fails: the level is computed from the unrounded score, the returned
  \<open>risk_score\<close> is rounded afterwards. For the employee above the returned \<open>risk_score\<close>
  is 0.6 and the returned level is \<open>MEDIUM\<close>, not \<open>HIGH\<close>.
\<close>

theorem rounded_score_level_counterexample:
  "risk_score (predictChurn new_ChurnPredictor 86400000 ''p2'' boundary_employee [] [] None) = 6/10 \<and>
   risk_level (predictChurn new_ChurnPredictor 86400000 ''p2'' boundary_employee [] [] None) = MEDIUM"
proof -
  let ?s = "calculateRiskScore (extractFeatures 86400000 boundary_employee [] [] None)"
  from boundary_score have lo: "5995/10000 \<le> ?s" and hi: "?s < 6/10" by simp_all
  have "600 \<le> ?s * 1000 + 1/2" and "?s * 1000 + 1/2 < 601" using lo hi by simp_all
  then have "\<lfloor>?s * 1000 + 1/2\<rfloor> = 600" by linarith
  then have "Math_round (?s * 1000) / 1000 = 6/10" by (simp add: Math_round_def)
  moreover have "categorizeRisk ?s = MEDIUM"
    using lo hi by (simp add: categorizeRisk_def)
  ultimately show ?thesis
    by (simp only: risk_score_predictChurn risk_level_predictChurn)
qed

text \<open>
  C2, amended: the \<open>risk_level\<close> of a prediction is \<open>categorizeRisk\<close> of the unrounded
  score of \<open>calculateRiskScore\<close>, from which the returned \<open>risk_score\<close> differs by at
  most 0.0005. \<open>categorizeRisk\<close> is a monotonic step function with upper-inclusive,
  non-overlapping bands (at least 0.8 \<open>CRITICAL\<close>, at least 0.6 \<open>HIGH\<close>, at least 0.3
  \<open>MEDIUM\<close>, otherwise \<open>LOW\<close>; 0.8 gives \<open>CRITICAL\<close> and 0.79999 gives \<open>HIGH\<close>).
  The level is the step function of the returned \<open>risk_score\<close> too, except that a
  returned \<open>risk_score\<close> of exactly 0.8, 0.6 or 0.3 may come with the next lower level.
\<close>

theorem risk_level_of_unrounded_score:
  "risk_level (predictChurn self now gid e ps gs d) =
     categorizeRisk (calculateRiskScore (extractFeatures now e ps gs d)) \<and>
   \<bar>risk_score (predictChurn self now gid e ps gs d)
      - calculateRiskScore (extractFeatures now e ps gs d)\<bar> \<le> 1/2000 \<and>
   (\<forall>a b. a \<le> b \<longrightarrow> level_rank (categorizeRisk a) \<le> level_rank (categorizeRisk b)) \<and>
   (\<forall>a. (categorizeRisk a = CRITICAL \<longleftrightarrow> 8/10 \<le> a) \<and>
        (categorizeRisk a = HIGH \<longleftrightarrow> 6/10 \<le> a \<and> a < 8/10) \<and>
        (categorizeRisk a = MEDIUM \<longleftrightarrow> 3/10 \<le> a \<and> a < 6/10) \<and>
        (categorizeRisk a = LOW \<longleftrightarrow> a < 3/10)) \<and>
   categorizeRisk (8/10) = CRITICAL \<and> categorizeRisk (79999/100000) = HIGH \<and>
   (risk_level (predictChurn self now gid e ps gs d) =
      categorizeRisk (risk_score (predictChurn self now gid e ps gs d)) \<or>
    (risk_score (predictChurn self now gid e ps gs d) = 8/10 \<and>
     risk_level (predictChurn self now gid e ps gs d) = HIGH) \<or>
    (risk_score (predictChurn self now gid e ps gs d) = 6/10 \<and>
     risk_level (predictChurn self now gid e ps gs d) = MEDIUM) \<or>
    (risk_score (predictChurn self now gid e ps gs d) = 3/10 \<and>
     risk_level (predictChurn self now gid e ps gs d) = LOW))"
proof (intro conjI allI impI)
  show "risk_level (predictChurn self now gid e ps gs d) =
     categorizeRisk (calculateRiskScore (extractFeatures now e ps gs d))"
    by (rule risk_level_predictChurn)
  show "\<bar>risk_score (predictChurn self now gid e ps gs d)
      - calculateRiskScore (extractFeatures now e ps gs d)\<bar> \<le> 1/2000"
    by (simp only: risk_score_predictChurn round3_near)
  show "level_rank (categorizeRisk a) \<le> level_rank (categorizeRisk b)" if "a \<le> b" for a b
    using that by (rule categorizeRisk_mono)
  show "categorizeRisk (8/10) = CRITICAL" and "categorizeRisk (79999/100000) = HIGH"
    by (simp_all add: categorizeRisk_def)
  show "risk_level (predictChurn self now gid e ps gs d) =
      categorizeRisk (risk_score (predictChurn self now gid e ps gs d)) \<or>
    (risk_score (predictChurn self now gid e ps gs d) = 8/10 \<and>
     risk_level (predictChurn self now gid e ps gs d) = HIGH) \<or>
    (risk_score (predictChurn self now gid e ps gs d) = 6/10 \<and>
     risk_level (predictChurn self now gid e ps gs d) = MEDIUM) \<or>
    (risk_score (predictChurn self now gid e ps gs d) = 3/10 \<and>
     risk_level (predictChurn self now gid e ps gs d) = LOW)"
    unfolding risk_level_predictChurn risk_score_predictChurn
    by (rule categorizeRisk_rounded)
qed (simp_all add: categorizeRisk_bands)

text \<open>The amended C2 at concrete scores 0.5 and 0.7 and at the employee above.\<close>

theorem risk_level_of_unrounded_score_witness:
  "(1/2 :: real) \<le> 7/10 \<and>
   level_rank (categorizeRisk (1/2)) \<le> level_rank (categorizeRisk (7/10)) \<and>
   categorizeRisk (1/2) = MEDIUM \<and> categorizeRisk (7/10) = HIGH \<and>
   risk_level (predictChurn new_ChurnPredictor 86400000 ''p2'' boundary_employee [] [] None) =
     categorizeRisk (calculateRiskScore (extractFeatures 86400000 boundary_employee [] [] None))"
proof -
  note t = risk_level_of_unrounded_score
    [of new_ChurnPredictor 86400000 "''p2''" boundary_employee "[]" "[]" None]
  have h: "(1/2 :: real) \<le> 7/10" by simp
  from t have m: "level_rank (categorizeRisk (1/2)) \<le> level_rank (categorizeRisk (7/10))"
    using h by blast
  from t have "categorizeRisk (1/2) = MEDIUM" and "categorizeRisk (7/10) = HIGH"
    by simp_all
  with t h m show ?thesis by blast
qed

subsection \<open>The trend estimator\<close>

lemma insert_by_key: "insert_by (\<lambda>a b. k a - k b) x ys = insort_key k x ys"
  by (induction ys) simp_all

lemma js_sort_key: "js_sort (\<lambda>a b. k a - k b) xs = sort_key k xs"
proof -
  have "insert_by (\<lambda>a b. k a - k b) = insort_key k"
    by (intro ext) (rule insert_by_key)
  then show ?thesis by (simp add: js_sort_def sort_key_def)
qed

lemma sorted_by_date_sort_key: "sorted_by_date data = sort_key (\<lambda>p. real_of_int (pt_date p)) data"
  unfolding sorted_by_date_def by (rule js_sort_key)

lemma length_sorted_by_date: "length (sorted_by_date data) = length data"
  by (simp add: sorted_by_date_sort_key)

lemma sorted_by_date_sorted: "sorted (map pt_date (sorted_by_date data))"
proof -
  have "sorted (map (\<lambda>p. real_of_int (pt_date p)) (sorted_by_date data))"
    by (simp add: sorted_by_date_sort_key)
  then have "sorted (map real_of_int (map pt_date (sorted_by_date data)))"
    by (simp add: comp_def)
  then show ?thesis
    by (simp add: sorted_wrt_map sorted_wrt_iff_nth_less del: map_map)
qed

lemma sorted_by_date_mset: "mset (sorted_by_date data) = mset data"
  by (simp add: sorted_by_date_sort_key)

lemma sorted_by_date_in_order:
  assumes "sorted (map pt_date data)"
  shows "sorted_by_date data = data"
proof -
  from assms have "sorted (map (\<lambda>p. real_of_int (pt_date p)) data)"
    by (simp add: sorted_wrt_map sorted_wrt_iff_nth_less)
  then show ?thesis
    by (simp add: sorted_by_date_sort_key sort_key_id_if_sorted)
qed

lemma sorted_by_date_stable:
  "filter (\<lambda>p. pt_date p = t) (sorted_by_date data) = filter (\<lambda>p. pt_date p = t) data"
  using sort_key_stable [of "\<lambda>p. real_of_int (pt_date p)" "real_of_int t" data]
  by (simp add: sorted_by_date_sort_key)

lemma foldl_enumerate_sum:
  "foldl (\<lambda>acc (i, x). acc + g x i) a (enumerate k xs) = a + (\<Sum>i<length xs. g (xs ! i) (k + i) :: real)"
proof (induction xs arbitrary: a k)
  case Nil
  show ?case by simp
next
  case (Cons x xs)
  show ?case
    by (simp add: Cons.IH sum.lessThan_Suc_shift add.assoc del: sum.lessThan_Suc)
qed

lemma reduce_i_sum:
  "reduce_i (\<lambda>acc x i. acc + g x i) 0 xs = (\<Sum>i<length xs. g (xs ! i) i :: real)"
  unfolding reduce_i_def using foldl_enumerate_sum [of g 0 0 xs] by simp

lemma calculateTrend_short: "length data < 2 \<Longrightarrow> calculateTrend data = 0"
  by (simp add: calculateTrend_def)

lemma calculateTrend_rank_slope:
  assumes "2 \<le> length data"
  shows "calculateTrend data = tanh (rank_slope (map pt_value (sorted_by_date data)))"
proof -
  let ?s = "sorted_by_date data"
  have sy: "(\<Sum>i<length ?s. map pt_value ?s ! i) = (\<Sum>i<length ?s. pt_value (?s ! i))"
    by (intro sum.cong refl) simp
  have sxy: "(\<Sum>i<length ?s. real i * map pt_value ?s ! i) = (\<Sum>i<length ?s. real i * pt_value (?s ! i))"
    by (intro sum.cong refl) simp
  have "calculateTrend data =
      tanh ((real (length ?s) * (\<Sum>i<length ?s. real i * pt_value (?s ! i))
              - (\<Sum>i<length ?s. real i) * (\<Sum>i<length ?s. pt_value (?s ! i)))
            / (real (length ?s) * (\<Sum>i<length ?s. real i * real i)
              - (\<Sum>i<length ?s. real i) * (\<Sum>i<length ?s. real i)))"
    using assms
    by (simp add: calculateTrend_def Let_def reduce_i_sum sorted_by_date_def [symmetric])
  then show ?thesis
    by (simp add: rank_slope_def sy sxy)
qed

text \<open>The covariance of two sequences as a double sum of products of differences.\<close>

lemma double_sum_identity:
  fixes f g :: "nat \<Rightarrow> real"
  shows "(\<Sum>i<n. \<Sum>j<n. (f i - f j) * (g i - g j)) =
         2 * (real n * (\<Sum>i<n. f i * g i) - (\<Sum>i<n. f i) * (\<Sum>i<n. g i))"
proof -
  define F G P where "F = sum f {..<n}" and "G = sum g {..<n}" and "P = (\<Sum>i<n. f i * g i)"
  have inner: "(\<Sum>j<n. (f i - f j) * (g i - g j)) = real n * (f i * g i) - f i * G - g i * F + P" for i
  proof -
    have "(\<Sum>j<n. (f i - f j) * (g i - g j)) =
          (\<Sum>j<n. f i * g i) - (\<Sum>j<n. f i * g j) - (\<Sum>j<n. g i * f j) + (\<Sum>j<n. f j * g j)"
      by (simp add: algebra_simps sum.distrib sum_subtractf)
    then show ?thesis
      by (simp add: F_def G_def P_def sum_distrib_left)
  qed
  have "(\<Sum>i<n. \<Sum>j<n. (f i - f j) * (g i - g j)) =
        (\<Sum>i<n. real n * (f i * g i) - f i * G - g i * F + P)"
    by (simp only: inner)
  also have "\<dots> = real n * P - F * G - G * F + real n * P"
    by (simp add: sum.distrib sum_subtractf F_def G_def P_def
        sum_distrib_left [symmetric] sum_distrib_right [symmetric])
  finally show ?thesis by (simp add: F_def G_def P_def algebra_simps)
qed

lemma rank_covariance_pos:
  fixes g :: "nat \<Rightarrow> real"
  assumes n: "2 \<le> n" and incr: "\<And>i j. i < j \<Longrightarrow> j < n \<Longrightarrow> g i < g j"
  shows "0 < real n * (\<Sum>i<n. real i * g i) - (\<Sum>i<n. real i) * (\<Sum>i<n. g i)"
proof -
  have term_nonneg: "0 \<le> (real i - real j) * (g i - g j)" if "i < n" "j < n" for i j
  proof (cases i j rule: linorder_cases)
    case less
    with that incr [of i j] show ?thesis by (simp add: mult_nonpos_nonpos)
  next
    case equal
    then show ?thesis by simp
  next
    case greater
    with that incr [of j i] show ?thesis by simp
  qed
  have inner_nonneg: "0 \<le> (\<Sum>j<n. (real i - real j) * (g i - g j))" if "i < n" for i
    using that by (intro sum_nonneg) (simp add: term_nonneg)
  have "0 < (real 0 - real 1) * (g 0 - g 1)"
    using incr [of 0 1] n by (simp add: mult_neg_neg)
  then have "0 < (\<Sum>j<n. (real 0 - real j) * (g 0 - g j))"
  proof (rule sum_pos2 [where i = 1, rotated 2])
    show "finite {..<n}" by simp
    show "1 \<in> {..<n}" using n by simp
    show "0 \<le> (real 0 - real j) * (g 0 - g j)" if "j \<in> {..<n}" for j
      using that n by (intro term_nonneg) simp_all
  qed
  then have "0 < (\<Sum>i<n. \<Sum>j<n. (real i - real j) * (g i - g j))"
  proof (rule sum_pos2 [where i = 0, rotated 2])
    show "finite {..<n}" by simp
    show "0 \<in> {..<n}" using n by simp
    show "0 \<le> (\<Sum>j<n. (real i - real j) * (g i - g j))" if "i \<in> {..<n}" for i
      using that by (intro inner_nonneg) simp
  qed
  then show ?thesis
    by (simp only: double_sum_identity) simp
qed

lemma rank_covariance_neg:
  fixes g :: "nat \<Rightarrow> real"
  assumes n: "2 \<le> n" and decr: "\<And>i j. i < j \<Longrightarrow> j < n \<Longrightarrow> g j < g i"
  shows "real n * (\<Sum>i<n. real i * g i) - (\<Sum>i<n. real i) * (\<Sum>i<n. g i) < 0"
proof -
  have "0 < real n * (\<Sum>i<n. real i * (- g i)) - (\<Sum>i<n. real i) * (\<Sum>i<n. - g i)"
    using n decr by (intro rank_covariance_pos) simp_all
  then show ?thesis by (simp add: sum_negf)
qed

lemma rank_variance_pos:
  assumes "2 \<le> n"
  shows "0 < real n * (\<Sum>i<n. real i * real i) - (\<Sum>i<n. real i) * (\<Sum>i<n. real i)"
  using assms by (intro rank_covariance_pos) simp_all

lemma rank_slope_pos:
  assumes "2 \<le> length ys" and "sorted_wrt (<) ys"
  shows "0 < rank_slope ys"
proof -
  have "0 < real (length ys) * (\<Sum>i<length ys. real i * ys ! i)
        - (\<Sum>i<length ys. real i) * (\<Sum>i<length ys. ys ! i)"
    using assms by (intro rank_covariance_pos) (simp_all add: sorted_wrt_iff_nth_less)
  moreover note rank_variance_pos [OF assms(1)]
  ultimately show ?thesis by (simp add: rank_slope_def)
qed

lemma rank_slope_neg:
  assumes "2 \<le> length ys" and "sorted_wrt (>) ys"
  shows "rank_slope ys < 0"
proof -
  have "real (length ys) * (\<Sum>i<length ys. real i * ys ! i)
        - (\<Sum>i<length ys. real i) * (\<Sum>i<length ys. ys ! i) < 0"
    using assms by (intro rank_covariance_neg) (simp_all add: sorted_wrt_iff_nth_less)
  moreover note rank_variance_pos [OF assms(1)]
  ultimately show ?thesis by (simp add: rank_slope_def divide_neg_pos)
qed

text \<open>The sum of squared residuals of any line exceeds that of the line through the computed
  slope by a sum of squares: the computed slope is the least-squares slope, and the only one.\<close>

lemma least_squares_decomposition:
  fixes y :: "nat \<Rightarrow> real" and n :: nat and a b :: real
  defines "Sx \<equiv> (\<Sum>i<n. real i)" and "Sy \<equiv> (\<Sum>i<n. y i)"
    and "Sxy \<equiv> (\<Sum>i<n. real i * y i)" and "Sxx \<equiv> (\<Sum>i<n. real i * real i)"
  defines "b0 \<equiv> (real n * Sxy - Sx * Sy) / (real n * Sxx - Sx * Sx)"
  defines "a0 \<equiv> (Sy - b0 * Sx) / real n"
  assumes n: "2 \<le> n"
  shows "(\<Sum>i<n. (y i - (a + b * real i))\<^sup>2) =
         (\<Sum>i<n. (y i - (a0 + b0 * real i))\<^sup>2) + (\<Sum>i<n. ((a - a0) + (b - b0) * real i)\<^sup>2)"
proof -
  define r where "r i = y i - (a0 + b0 * real i)" for i
  have D: "0 < real n * Sxx - Sx * Sx"
    unfolding Sxx_def Sx_def using n by (rule rank_variance_pos)
  have n0: "real n \<noteq> 0" using n by simp
  have a0n: "real n * a0 = Sy - b0 * Sx"
    unfolding a0_def using n0 by simp
  have b0D: "b0 * (real n * Sxx - Sx * Sx) = real n * Sxy - Sx * Sy"
    unfolding b0_def using D by simp
  have sum_r: "(\<Sum>i<n. r i) = 0"
  proof -
    have "(\<Sum>i<n. r i) = Sy - real n * a0 - b0 * Sx"
      by (simp add: r_def sum_subtractf sum.distrib sum_distrib_left Sy_def Sx_def)
    then show ?thesis using a0n by simp
  qed
  have sum_ir: "(\<Sum>i<n. real i * r i) = 0"
  proof -
    have "(\<Sum>i<n. real i * r i) = (\<Sum>i<n. real i * y i - a0 * real i - b0 * (real i * real i))"
      by (simp add: r_def algebra_simps)
    also have "\<dots> = Sxy - a0 * Sx - b0 * Sxx"
      by (simp add: sum_subtractf sum_distrib_left Sxy_def Sx_def Sxx_def)
    finally have e: "(\<Sum>i<n. real i * r i) = Sxy - a0 * Sx - b0 * Sxx" .
    have "real n * (\<Sum>i<n. real i * r i) = real n * (Sxy - a0 * Sx - b0 * Sxx)"
      by (simp only: e)
    also have "\<dots> = real n * Sxy - (real n * a0) * Sx - b0 * (real n * Sxx)"
      by (simp add: algebra_simps)
    also have "\<dots> = real n * Sxy - Sx * Sy - b0 * (real n * Sxx - Sx * Sx)"
      by (simp only: a0n) (simp add: algebra_simps)
    also have "\<dots> = 0" by (simp add: b0D)
    finally show ?thesis using n0 by simp
  qed
  have "(\<Sum>i<n. (y i - (a + b * real i))\<^sup>2) =
        (\<Sum>i<n. (r i)\<^sup>2 - 2 * (a - a0) * r i - 2 * (b - b0) * (real i * r i)
              + ((a - a0) + (b - b0) * real i)\<^sup>2)"
    by (intro sum.cong refl) (simp add: r_def power2_eq_square algebra_simps)
  also have "\<dots> = (\<Sum>i<n. (r i)\<^sup>2) - 2 * (a - a0) * (\<Sum>i<n. r i)
        - 2 * (b - b0) * (\<Sum>i<n. real i * r i) + (\<Sum>i<n. ((a - a0) + (b - b0) * real i)\<^sup>2)"
    by (simp add: sum.distrib sum_subtractf sum_distrib_left)
  finally have "(\<Sum>i<n. (y i - (a + b * real i))\<^sup>2) =
        (\<Sum>i<n. (r i)\<^sup>2) + (\<Sum>i<n. ((a - a0) + (b - b0) * real i)\<^sup>2)"
    unfolding sum_r sum_ir by simp
  then show ?thesis by (simp only: r_def)
qed

lemma sse_rank_slope:
  assumes "2 \<le> length ys"
  shows "\<exists>a0. \<forall>a b. sse ys a b =
           sse ys a0 (rank_slope ys) + (\<Sum>i<length ys. ((a - a0) + (b - rank_slope ys) * real i)\<^sup>2)"
  unfolding sse_def rank_slope_def
  using least_squares_decomposition [OF assms, of "\<lambda>i. ys ! i"] by blast

lemma is_ols_slope_rank_slope:
  assumes "2 \<le> length ys"
  shows "is_ols_slope ys b \<longleftrightarrow> b = rank_slope ys"
proof -
  from sse_rank_slope [OF assms] obtain a0 where
    dec: "\<And>a b. sse ys a b =
           sse ys a0 (rank_slope ys) + (\<Sum>i<length ys. ((a - a0) + (b - rank_slope ys) * real i)\<^sup>2)"
    by blast
  have least: "sse ys a0 (rank_slope ys) \<le> sse ys a b" for a b
    by (subst dec [of a b]) (simp add: sum_nonneg)
  show ?thesis
  proof
    assume "b = rank_slope ys"
    with least show "is_ols_slope ys b" unfolding is_ols_slope_def by blast
  next
    assume "is_ols_slope ys b"
    then obtain a where "sse ys a b \<le> sse ys a0 (rank_slope ys)"
      unfolding is_ols_slope_def by blast
    with dec [of a b] have "(\<Sum>i<length ys. ((a - a0) + (b - rank_slope ys) * real i)\<^sup>2) \<le> 0"
      by simp
    moreover have "0 \<le> (\<Sum>i<length ys. ((a - a0) + (b - rank_slope ys) * real i)\<^sup>2)"
      by (simp add: sum_nonneg)
    ultimately have "(\<Sum>i<length ys. ((a - a0) + (b - rank_slope ys) * real i)\<^sup>2) = 0"
      by simp
    then have z: "\<forall>i\<in>{..<length ys}. ((a - a0) + (b - rank_slope ys) * real i)\<^sup>2 = 0"
      by (subst (asm) sum_nonneg_eq_0_iff) simp_all
    have "0 \<in> {..<length ys}" and "1 \<in> {..<length ys}" using assms by auto
    then have "((a - a0) + (b - rank_slope ys) * real 0)\<^sup>2 = 0"
      and "((a - a0) + (b - rank_slope ys) * real 1)\<^sup>2 = 0"
      using z by blast+
    then show "b = rank_slope ys" by simp
  qed
qed

lemma rising_value: "calculateTrend rising_points = tanh 2"
  by (simp add: calculateTrend_def rising_points_def Let_def js_sort_def reduce_i_def enumerate_eq_zip upt_rec)

text \<open>
  C4: with fewer than two points the trend is exactly 0. Otherwise the points are sorted
  ascending by date (a permutation of the input), and the trend is the hyperbolic tangent of
  the ordinary-least-squares slope of the values against their rank 0, 1, 2, ... in that
  order, which is unique. With at least two points, values that strictly increase in date
  order give a strictly positive trend and values that strictly decrease give a strictly
  negative one.
\<close>

theorem trend_estimator:
  "(length data < 2 \<longrightarrow> calculateTrend data = 0) \<and>
   sorted (map pt_date (sorted_by_date data)) \<and>
   mset (sorted_by_date data) = mset data \<and>
   (2 \<le> length data \<longrightarrow>
      (\<exists>b. is_ols_slope (map pt_value (sorted_by_date data)) b \<and>
           (\<forall>b'. is_ols_slope (map pt_value (sorted_by_date data)) b' \<longrightarrow> b' = b) \<and>
           calculateTrend data = tanh b)) \<and>
   (2 \<le> length data \<and> sorted_wrt (<) (map pt_value (sorted_by_date data))
      \<longrightarrow> 0 < calculateTrend data) \<and>
   (2 \<le> length data \<and> sorted_wrt (>) (map pt_value (sorted_by_date data))
      \<longrightarrow> calculateTrend data < 0)"
proof (intro conjI impI)
  show "calculateTrend data = 0" if "length data < 2"
    using that by (rule calculateTrend_short)
  show "sorted (map pt_date (sorted_by_date data))"
    by (rule sorted_by_date_sorted)
  show "mset (sorted_by_date data) = mset data"
    by (rule sorted_by_date_mset)
next
  let ?ys = "map pt_value (sorted_by_date data)"
  assume n: "2 \<le> length data"
  then have len: "2 \<le> length ?ys" by (simp add: length_sorted_by_date)
  have "is_ols_slope ?ys (rank_slope ?ys)"
    and "\<forall>b'. is_ols_slope ?ys b' \<longrightarrow> b' = rank_slope ?ys"
    by (simp_all only: is_ols_slope_rank_slope [OF len]) simp
  with calculateTrend_rank_slope [OF n]
  show "\<exists>b. is_ols_slope ?ys b \<and> (\<forall>b'. is_ols_slope ?ys b' \<longrightarrow> b' = b) \<and> calculateTrend data = tanh b"
    by blast
next
  let ?ys = "map pt_value (sorted_by_date data)"
  assume "2 \<le> length data \<and> sorted_wrt (<) ?ys"
  then have n: "2 \<le> length data" and len: "2 \<le> length ?ys" and inc: "sorted_wrt (<) ?ys"
    by (simp_all add: length_sorted_by_date)
  show "0 < calculateTrend data"
    using rank_slope_pos [OF len inc] by (simp add: calculateTrend_rank_slope [OF n])
next
  let ?ys = "map pt_value (sorted_by_date data)"
  assume "2 \<le> length data \<and> sorted_wrt (>) ?ys"
  then have n: "2 \<le> length data" and len: "2 \<le> length ?ys" and dec: "sorted_wrt (>) ?ys"
    by (simp_all add: length_sorted_by_date)
  show "calculateTrend data < 0"
    using rank_slope_neg [OF len dec] by (simp add: calculateTrend_rank_slope [OF n])
qed

text \<open>C4 at the empty series, at a series given out of date order whose values rise in date
  order from 3 to 5 (trend \<open>tanh 2\<close>), and at a falling series.\<close>

theorem trend_estimator_witness:
  "length ([] :: TrendPoint list) < 2 \<and> calculateTrend [] = 0 \<and>
   2 \<le> length rising_points \<and>
   map pt_value (sorted_by_date rising_points) = [3, 5] \<and>
   sorted_wrt (<) (map pt_value (sorted_by_date rising_points)) \<and>
   0 < calculateTrend rising_points \<and>
   calculateTrend rising_points = tanh 2 \<and>
   (\<exists>b. is_ols_slope (map pt_value (sorted_by_date rising_points)) b \<and>
        calculateTrend rising_points = tanh b) \<and>
   2 \<le> length falling_points \<and>
   sorted_wrt (>) (map pt_value (sorted_by_date falling_points)) \<and>
   calculateTrend falling_points < 0"
proof -
  have r: "map pt_value (sorted_by_date rising_points) = [3, 5]"
    by (simp add: sorted_by_date_def js_sort_def rising_points_def)
  have f: "map pt_value (sorted_by_date falling_points) = [5, 3]"
    by (simp add: sorted_by_date_def js_sort_def falling_points_def)
  have lr: "length rising_points = 2" and lf: "length falling_points = 2"
    by (simp_all add: rising_points_def falling_points_def)
  show ?thesis
    using trend_estimator [of "[]"] trend_estimator [of rising_points] trend_estimator [of falling_points]
    unfolding r f lr lf using rising_value by auto
qed

subsection \<open>Batch prediction\<close>





subsection \<open>Feature extraction\<close>

lemma department_turnover_rate_cases:
  "department_turnover_rate (extractFeatures now e ps gs d) =
     (case d of
        None \<Rightarrow> 15/100
      | Some c \<Rightarrow> (case turnover_rate c of
                     None \<Rightarrow> 15/100
                   | Some r \<Rightarrow> if r = 0 then 15/100 else r))"
  by (simp add: extractFeatures_def Let_def js_or_def split: option.splits)

text \<open>
  C6: the feature \<open>department_turnover_rate\<close> should be the supplied turnover rate whenever
  a department context is supplied. With a supplied rate of 0 the code yields 0.15 instead,
  since \<open>||\<close> takes 0 for a missing value.
\<close>

theorem zero_turnover_rate_replaced:
  "department_turnover_rate
     (extractFeatures now e ps gs (Some \<lparr>turnover_rate = Some 0\<rparr>)) = 15/100"
  by (simp add: extractFeatures_def Let_def js_or_def)

subsection \<open>Risk factors\<close>

lemma push_if_Nil_iff: "push_if c s fs = [] \<longleftrightarrow> \<not> c \<and> fs = []"
  by (simp add: push_if_def)

lemma mem_push_if: "x \<in> set (push_if c s fs) \<longleftrightarrow> (c \<and> x = s) \<or> x \<in> set fs"
  by (simp add: push_if_def)

lemma fallback_push_nonempty: "push_if (length fs = 0) s fs \<noteq> []"
  by (cases fs) (simp_all add: push_if_def)

lemma identifyRiskFactors_nonempty: "identifyRiskFactors f \<noteq> []"
  unfolding identifyRiskFactors_def Let_def by (rule fallback_push_nonempty)

lemma identifyRiskFactors_fallback:
  "no_rule_fires f \<Longrightarrow> identifyRiskFactors f = [''Multiple minor risk indicators'']"
  by (simp add: identifyRiskFactors_def no_rule_fires_def Let_def push_if_def)

lemma below_average_iff:
  "''Below average performance rating'' \<in> set (identifyRiskFactors f) \<longleftrightarrow>
     avg_performance_rating f < 3"
  by (simp add: identifyRiskFactors_def Let_def mem_push_if)

lemma steady_features:
  "extractFeatures 31104000000 steady_employee [] [] None =
     \<lparr>tenure_months = 12, avg_performance_rating = 3, performance_trend = 0,
      avg_engagement_score = 7, engagement_trend = 0, salary_percentile = 1/2,
      manager_changes = 0, department_turnover_rate = 15/100, promotion_gap_months = 0,
      work_life_balance_score = 7\<rparr>"
  by (simp add: extractFeatures_def steady_employee_def calculateTrend_def js_or_def Let_def)

text \<open>
  C8, as stated, fails on the text of the fallback factor: for an employee on whom no rule
  fires the list is not \<open>[''multiple minor risk indicators'']\<close>; the code's string starts
  with a capital letter.
\<close>

theorem fallback_string_counterexample:
  "no_rule_fires (extractFeatures 31104000000 steady_employee [] [] None) \<and>
   risk_factors (predictChurn new_ChurnPredictor 31104000000 ''p1'' steady_employee [] [] None)
     \<noteq> [''multiple minor risk indicators'']"
  by (simp add: risk_factors_predictChurn steady_features no_rule_fires_def
      identifyRiskFactors_def push_if_def Let_def)

text \<open>
  C8, amended: the \<open>risk_factors\<close> of every prediction are non-empty, and when none of the
  ten threshold rules fires on the raw feature values the list is exactly
  \<open>[''Multiple minor risk indicators'']\<close>.
\<close>

theorem risk_factors_fallback:
  "risk_factors (predictChurn self now gid e ps gs d) \<noteq> [] \<and>
   (no_rule_fires (extractFeatures now e ps gs d) \<longrightarrow>
      risk_factors (predictChurn self now gid e ps gs d) = [''Multiple minor risk indicators''])"
  by (simp add: risk_factors_predictChurn identifyRiskFactors_nonempty identifyRiskFactors_fallback)

text \<open>The amended C8 at an employee of twelve months' tenure with a salary of 60000 and no records.\<close>

theorem risk_factors_fallback_witness:
  "no_rule_fires (extractFeatures 31104000000 steady_employee [] [] None) \<and>
   risk_factors (predictChurn new_ChurnPredictor 31104000000 ''p1'' steady_employee [] [] None)
     = [''Multiple minor risk indicators'']"
  using risk_factors_fallback [of new_ChurnPredictor 31104000000 "''p1''" steady_employee "[]" "[]" None]
  by (simp add: steady_features no_rule_fires_def)

text \<open>
  C9: for an employee with no performance records the feature \<open>avg_performance_rating\<close>
  is 3, and the factor \<open>''Below average performance rating''\<close> is not among the
  \<open>risk_factors\<close>, whatever the other inputs are.
\<close>

theorem no_records_default_rating:
  "avg_performance_rating (extractFeatures now e [] gs d) = 3 \<and>
   ''Below average performance rating'' \<notin> set (risk_factors (predictChurn self now gid e [] gs d))"
proof -
  have a: "avg_performance_rating (extractFeatures now e [] gs d) = 3"
    by (simp add: extractFeatures_def Let_def)
  then show ?thesis
    by (simp add: risk_factors_predictChurn below_average_iff)
qed

subsection \<open>Threshold configuration\<close>

text \<open>On every number other than \<open>NaN\<close> the guard does what its message says: a value
  outside the interval from 0 to 1, the infinities among them, is rejected and the threshold
  stays as it was; a value inside is stored.\<close>

lemma setRiskThreshold_numbers:
  assumes "t \<noteq> NaN"
  shows "(\<not> in_unit_interval t \<longrightarrow>
            fst (setRiskThreshold t self) = Inl (Error ''Threshold must be between 0 and 1'') \<and>
            getRiskThreshold (snd (setRiskThreshold t self)) = getRiskThreshold self) \<and>
         (in_unit_interval t \<longrightarrow>
            fst (setRiskThreshold t self) = Inr () \<and>
            getRiskThreshold (snd (setRiskThreshold t self)) = t)"
  using assms by (cases t) (auto simp: setRiskThreshold_def getRiskThreshold_def)

lemma setRiskThreshold_examples:
  "fst (setRiskThreshold (Num (3/2)) new_ChurnPredictor) = Inl (Error ''Threshold must be between 0 and 1'') \<and>
   getRiskThreshold (snd (setRiskThreshold (Num (3/2)) new_ChurnPredictor)) = Num (1/2) \<and>
   fst (setRiskThreshold (Num (3/10)) new_ChurnPredictor) = Inr () \<and>
   getRiskThreshold (snd (setRiskThreshold (Num (3/10)) new_ChurnPredictor)) = Num (3/10)"
  by (simp add: setRiskThreshold_def getRiskThreshold_def new_ChurnPredictor_def)

text \<open>
  C7: every threshold value outside the interval from 0 to 1 should make
  \<open>setRiskThreshold\<close> fail and leave the threshold as it was. \<open>NaN\<close> is not in the interval,
  but both comparisons of the guard are false on it: the call succeeds, and the threshold
  that \<open>getRiskThreshold\<close> returns afterwards is \<open>NaN\<close>, not the initial 0.5.
\<close>

theorem setRiskThreshold_accepts_NaN:
  "\<not> in_unit_interval NaN \<and>
   fst (setRiskThreshold NaN new_ChurnPredictor) = Inr () \<and>
   getRiskThreshold (snd (setRiskThreshold NaN new_ChurnPredictor)) = NaN \<and>
   getRiskThreshold (snd (setRiskThreshold NaN new_ChurnPredictor)) \<noteq> getRiskThreshold new_ChurnPredictor"
  by (simp add: setRiskThreshold_def getRiskThreshold_def new_ChurnPredictor_def)

end
